theory Spec2Isabelle
  imports Main
begin

section \<open>Values of the host language\<close>

text \<open>
  The two classes are generic, and TypeScript erases the type parameters: at run time a
  payload is any JavaScript value. The universe below is flat, as JavaScript's is:
  \<open>undefined\<close> and \<open>null\<close> are values like any other, so \<open>Some(undefined)\<close> and \<open>None()\<close>
  hold the same payload and differ in the discriminant only. \<open>Val\<close> stands for every value
  the library never looks into (numbers, booleans, strings, objects); \<open>Arr\<close> is an array,
  \<open>Error m\<close> the object \<open>new Error(m)\<close>, and \<open>TypeError\<close> the error the engine raises when
  something that is not a function is called (its message is the engine's own).

  A computation that may throw returns a sum: \<open>Inl e\<close> when it throws \<open>e\<close>, \<open>Inr r\<close> when it
  returns \<open>r\<close>.
\<close>

datatype 'a jsval =
    Undefined
  | Null
  | Val 'a
  | Arr "'a jsval list"
  | Error string
  | TypeError

text \<open>\<open>value != null\<close> (loose inequality): false for \<open>null\<close> and \<open>undefined\<close> only.\<close>

fun loose_neq_null :: "'a jsval \<Rightarrow> bool" where
  "loose_neq_null Undefined = False"
| "loose_neq_null Null = False"
| "loose_neq_null (Val x) = True"
| "loose_neq_null (Arr xs) = True"
| "loose_neq_null (Error m) = True"
| "loose_neq_null TypeError = True"

section \<open>The class \<open>Option\<close> (packages/option/src/index.ts)\<close>

text \<open>
  One class with a boolean discriminant \<open>_isSome\<close> and an optional payload slot \<open>_value\<close>.
  The constructor is private: instances come from \<open>Option.some\<close> and \<open>Option.none\<close> only.
\<close>

record 'a Option =
  O_isSome :: bool
  O_value :: "'a jsval"

definition Option_some :: "'a jsval \<Rightarrow> 'a Option" where
  "Option_some v = \<lparr>O_isSome = True, O_value = v\<rparr>"

text \<open>The result of the call \<open>Option.none()\<close>.\<close>

definition Option_none :: "'a Option" where
  "Option_none = \<lparr>O_isSome = False, O_value = Undefined\<rparr>"

definition Option_isSome :: "'a Option \<Rightarrow> bool" where
  "Option_isSome this = O_isSome this"

definition Option_isNone :: "'a Option \<Rightarrow> bool" where
  "Option_isNone this = (\<not> O_isSome this)"

text \<open>The getter \<open>value\<close>.\<close>

definition Option_value :: "'a Option \<Rightarrow> 'a jsval + 'a jsval" where
  "Option_value this =
     (if \<not> O_isSome this then Inl (Error ''Called value on a None option'')
      else Inr (O_value this))"

definition Option_map :: "'a Option \<Rightarrow> ('a jsval \<Rightarrow> 'a jsval) \<Rightarrow> 'a Option" where
  "Option_map this fn =
     (if O_isSome this then Option_some (fn (O_value this)) else Option_none)"

definition Option_and :: "'a Option \<Rightarrow> 'a Option \<Rightarrow> 'a Option" where
  "Option_and this other = (if O_isSome this then other else Option_none)"

definition Option_andThen :: "'a Option \<Rightarrow> ('a jsval \<Rightarrow> 'a Option) \<Rightarrow> 'a Option" where
  "Option_andThen this fn = (if O_isSome this then fn (O_value this) else Option_none)"

definition Option_or :: "'a Option \<Rightarrow> 'a Option \<Rightarrow> 'a Option" where
  "Option_or this other = (if O_isSome this then this else other)"

definition Option_unwrap :: "'a Option \<Rightarrow> 'a jsval + 'a jsval" where
  "Option_unwrap this =
     (if O_isSome this then Inr (O_value this)
      else Inl (Error ''Called unwrap on a None value''))"

definition Option_toNullable :: "'a Option \<Rightarrow> 'a jsval" where
  "Option_toNullable this = (if O_isSome this then O_value this else Null)"

definition Option_toUndefined :: "'a Option \<Rightarrow> 'a jsval" where
  "Option_toUndefined this = (if O_isSome this then O_value this else Undefined)"

definition Option_fromNullable :: "'a jsval \<Rightarrow> 'a Option" where
  "Option_fromNullable v = (if loose_neq_null v then Option_some v else Option_none)"

text \<open>
  What a client can see of an instance: the fields are private, so two instances are
  observationally equal when the guard \<open>isSome()\<close> and the getter \<open>value\<close> answer the same.
\<close>

definition Option_obs_eq :: "'a Option \<Rightarrow> 'a Option \<Rightarrow> bool" where
  "Option_obs_eq x y =
     (Option_isSome x = Option_isSome y \<and> Option_value x = Option_value y)"

section \<open>The helpers of \<open>Option\<close> (packages/option/src/helpers.ts)\<close>

text \<open>
  \<open>Option.none\<close> is a static method. The helpers end their empty branches with
  \<open>return Option.none;\<close>, without the call: what they return there is the method itself, a
  function object, and not an instance of the class. A helper's result is therefore either
  an instance or that method.
\<close>

datatype 'a helper_value =
    Instance "'a Option"
  | Option_none_method

text \<open>
  Calling \<open>.isNone()\<close> on a helper's result, as the helpers' tests do. A function object
  has no such property, so the call raises a \<open>TypeError\<close>.
\<close>

definition call_isNone :: "'a helper_value \<Rightarrow> 'a jsval + bool" where
  "call_isNone r =
     (case r of Instance x \<Rightarrow> Inr (Option_isNone x) | Option_none_method \<Rightarrow> Inl TypeError)"

text \<open>
  \<open>wrapSync(fn)\<close>: \<open>fn\<close> is arbitrary client code. It runs on the state of the program, may
  change it, and either returns a value or throws one. The state is threaded so that the
  number of calls of \<open>fn\<close> shows in the result.
\<close>

type_synonym ('s, 'a) thunk = "'s \<Rightarrow> ('a jsval + 'a jsval) \<times> 's"

definition wrapSync :: "('s, 'a) thunk \<Rightarrow> 's \<Rightarrow> 'a helper_value \<times> 's" where
  "wrapSync fn s =
     (case fn s of
        (Inr v, s') \<Rightarrow> (Instance (Option_some v), s')
      | (Inl e, s') \<Rightarrow> (Option_none_method, s'))"

text \<open>
  \<open>collect\<close>: the loop over \<open>options\<close>, with the array \<open>values\<close> as accumulator. The getter
  \<open>option.value\<close> can throw, so the loop returns a sum.
\<close>

fun collect_loop :: "'a Option list \<Rightarrow> 'a jsval list \<Rightarrow> 'a jsval + 'a helper_value" where
  "collect_loop [] vals = Inr (Instance (Option_some (Arr vals)))"
| "collect_loop (option # rest) vals =
     (if Option_isSome option then
        (case Option_value option of
           Inl e \<Rightarrow> Inl e
         | Inr v \<Rightarrow> collect_loop rest (vals @ [v]))
      else Inr Option_none_method)"

definition collect :: "'a Option list \<Rightarrow> 'a jsval + 'a helper_value" where
  "collect options = collect_loop options []"

fun findSome :: "'a Option list \<Rightarrow> 'a helper_value" where
  "findSome [] = Option_none_method"
| "findSome (option # rest) =
     (if Option_isSome option then Instance option else findSome rest)"

section \<open>The class \<open>Result\<close> (packages/result/src/index.ts)\<close>

text \<open>
  The same design with a second payload slot for the error. \<open>this as any\<close> is a cast of
  the type checker and returns the receiver itself.

  The template literal of \<open>unwrap\<close> converts the error with the language's own string
  conversion before \<open>new Error\<close> is built. That conversion is a parameter \<open>str\<close> of the
  model, and it can throw (on a symbol, on an object without a prototype, on an object
  whose \<open>toString\<close> throws): \<open>Inl t\<close> when it throws \<open>t\<close>, \<open>Inr s\<close> when it gives the string
  \<open>s\<close>. What it throws leaves \<open>unwrap\<close> as it is.
\<close>

record 'a Result =
  R_isOk :: bool
  R_value :: "'a jsval"
  R_error :: "'a jsval"

definition Result_ok :: "'a jsval \<Rightarrow> 'a Result" where
  "Result_ok v = \<lparr>R_isOk = True, R_value = v, R_error = Undefined\<rparr>"

definition Result_err :: "'a jsval \<Rightarrow> 'a Result" where
  "Result_err e = \<lparr>R_isOk = False, R_value = Undefined, R_error = e\<rparr>"

definition Result_isOk :: "'a Result \<Rightarrow> bool" where
  "Result_isOk this = R_isOk this"

definition Result_isErr :: "'a Result \<Rightarrow> bool" where
  "Result_isErr this = (\<not> R_isOk this)"

definition Result_value :: "'a Result \<Rightarrow> 'a jsval + 'a jsval" where
  "Result_value this =
     (if \<not> R_isOk this then Inl (Error ''Called value on an Err result'')
      else Inr (R_value this))"

definition Result_error :: "'a Result \<Rightarrow> 'a jsval + 'a jsval" where
  "Result_error this =
     (if R_isOk this then Inl (Error ''Called error on an Ok result'')
      else Inr (R_error this))"

definition Result_map :: "'a Result \<Rightarrow> ('a jsval \<Rightarrow> 'a jsval) \<Rightarrow> 'a Result" where
  "Result_map this fn = (if R_isOk this then Result_ok (fn (R_value this)) else this)"

definition Result_and :: "'a Result \<Rightarrow> 'a Result \<Rightarrow> 'a Result" where
  "Result_and this other = (if R_isOk this then other else this)"

definition Result_andThen :: "'a Result \<Rightarrow> ('a jsval \<Rightarrow> 'a Result) \<Rightarrow> 'a Result" where
  "Result_andThen this fn = (if R_isOk this then fn (R_value this) else this)"

definition Result_or :: "'a Result \<Rightarrow> 'a Result \<Rightarrow> 'a Result" where
  "Result_or this other = (if R_isOk this then this else other)"

definition Result_unwrap ::
  "('a jsval \<Rightarrow> 'a jsval + string) \<Rightarrow> 'a Result \<Rightarrow> 'a jsval + 'a jsval" where
  "Result_unwrap str this =
     (if R_isOk this then Inr (R_value this)
      else (case str (R_error this) of
              Inl t \<Rightarrow> Inl t
            | Inr s \<Rightarrow> Inl (Error (''Called unwrap on an Err value: '' @ s))))"

definition Result_obs_eq :: "'a Result \<Rightarrow> 'a Result \<Rightarrow> bool" where
  "Result_obs_eq x y =
     (Result_isOk x = Result_isOk y \<and> Result_value x = Result_value y
      \<and> Result_error x = Result_error y)"

section \<open>The helpers of \<open>Result\<close> (packages/result/src/helpers.ts)\<close>

fun Result_collect_loop :: "'a Result list \<Rightarrow> 'a jsval list \<Rightarrow> 'a jsval + 'a Result" where
  "Result_collect_loop [] vals = Inr (Result_ok (Arr vals))"
| "Result_collect_loop (result # rest) vals =
     (if Result_isErr result then Inr result
      else (case Result_value result of
              Inl e \<Rightarrow> Inl e
            | Inr v \<Rightarrow> Result_collect_loop rest (vals @ [v])))"

definition Result_collect :: "'a Result list \<Rightarrow> 'a jsval + 'a Result" where
  "Result_collect results = Result_collect_loop results []"

section \<open>The string conversion on strings and symbols\<close>

text \<open>
  The language's conversion of a value to a string, as a template literal applies it, on
  the universe whose opaque values are strings and symbols. A string converts to itself
  and a symbol throws a \<open>TypeError\<close>. \<open>undefined\<close> and \<open>null\<close> convert to their names; an
  array joins the conversions of its elements with commas, from left to right, where
  \<open>undefined\<close> and \<open>null\<close> elements count as empty; \<open>new Error(m)\<close> converts to \<open>Error: m\<close>,
  or to \<open>Error\<close> when \<open>m\<close> is empty. A \<open>TypeError\<close> of this universe carries no message, so
  it converts to its name.
\<close>

datatype atom = Str string | Symbol string

fun join :: "string list \<Rightarrow> string" where
  "join [] = []"
| "join [s] = s"
| "join (s # t # ss) = s @ '','' @ join (t # ss)"

fun ToString :: "atom jsval \<Rightarrow> atom jsval + string"
  and ToString_elements :: "atom jsval list \<Rightarrow> atom jsval + string list" where
  "ToString Undefined = Inr ''undefined''"
| "ToString Null = Inr ''null''"
| "ToString (Val (Str s)) = Inr s"
| "ToString (Val (Symbol d)) = Inl TypeError"
| "ToString (Arr xs) =
     (case ToString_elements xs of Inl t \<Rightarrow> Inl t | Inr ss \<Rightarrow> Inr (join ss))"
| "ToString (Error m) = Inr (if m = [] then ''Error'' else ''Error: '' @ m)"
| "ToString TypeError = Inr ''TypeError''"
| "ToString_elements [] = Inr []"
| "ToString_elements (x # xs) =
     (case (if x = Undefined \<or> x = Null then Inr [] else ToString x) of
        Inl t \<Rightarrow> Inl t
      | Inr s \<Rightarrow>
          (case ToString_elements xs of Inl t \<Rightarrow> Inl t | Inr ss \<Rightarrow> Inr (s # ss)))"

section \<open>Properties\<close>

lemmas Option_defs =
  Option_some_def Option_none_def Option_isSome_def Option_isNone_def Option_value_def
  Option_map_def Option_and_def Option_andThen_def Option_or_def Option_unwrap_def
  Option_toNullable_def Option_toUndefined_def Option_fromNullable_def Option_obs_eq_def

lemmas Result_defs =
  Result_ok_def Result_err_def Result_isOk_def Result_isErr_def Result_value_def
  Result_error_def Result_map_def Result_and_def Result_andThen_def Result_or_def
  Result_unwrap_def Result_obs_eq_def

lemma loose_neq_null_iff: "loose_neq_null v \<longleftrightarrow> v \<noteq> Null \<and> v \<noteq> Undefined"
  by (cases v) simp_all

lemma Option_some_neq_none: "Option_some v \<noteq> Option_none"
  by (simp add: Option_some_def Option_none_def)

subsection \<open>The helpers of \<open>Option\<close>\<close>

text \<open>
  What the three helpers do on every input. Where the input decides for a value they
  return an instance; on their empty branch they return the method \<open>Option.none\<close>.
\<close>

lemma collect_loop_all_some:
  "\<forall>x\<in>set xs. Option_isSome x \<Longrightarrow>
   collect_loop xs vals = Inr (Instance (Option_some (Arr (vals @ map O_value xs))))"
  by (induction xs arbitrary: vals) (simp_all add: Option_isSome_def Option_value_def)

lemma collect_loop_first_none:
  "\<forall>x\<in>set pre. Option_isSome x \<Longrightarrow> Option_isNone x \<Longrightarrow>
   collect_loop (pre @ x # post) vals = Inr Option_none_method"
  by (induction pre arbitrary: vals)
    (simp_all add: Option_isSome_def Option_isNone_def Option_value_def)

lemma collect_empty: "collect [] = Inr (Instance (Option_some (Arr [])))"
  by (simp add: collect_def)

lemma collect_all_some:
  "\<forall>x\<in>set xs. Option_isSome x \<Longrightarrow>
   collect xs = Inr (Instance (Option_some (Arr (map O_value xs))))"
  by (simp add: collect_def collect_loop_all_some)

lemma collect_first_none:
  "\<forall>x\<in>set pre. Option_isSome x \<Longrightarrow> Option_isNone x \<Longrightarrow>
   collect (pre @ x # post) = Inr Option_none_method"
  by (simp add: collect_def collect_loop_first_none)

lemma findSome_first_some:
  "\<forall>x\<in>set pre. Option_isNone x \<Longrightarrow> Option_isSome x \<Longrightarrow>
   findSome (pre @ x # post) = Instance x"
  by (induction pre) (simp_all add: Option_isSome_def Option_isNone_def)

lemma findSome_no_some:
  "\<forall>x\<in>set xs. Option_isNone x \<Longrightarrow> findSome xs = Option_none_method"
  by (induction xs) (simp_all add: Option_isSome_def Option_isNone_def)

lemma wrapSync_returns:
  "fn s = (Inr r, s') \<Longrightarrow> wrapSync fn s = (Instance (Option_some r), s')"
  by (simp add: wrapSync_def)

lemma wrapSync_throws:
  "fn s = (Inl e, s') \<Longrightarrow> wrapSync fn s = (Option_none_method, s')"
  by (simp add: wrapSync_def)

lemma wrapSync_calls_once: "snd (wrapSync fn s) = snd (fn s)"
  by (simp add: wrapSync_def split: prod.splits sum.splits)

text \<open>
  Claim C1. \<open>collect\<close> on the list of the helpers' own test,
  \<open>[Some(1), None(), Some(3)]\<close>: the claim, the doc comment and the test expect an empty
  \<open>Option\<close>. The code returns the method \<open>Option.none\<close>: no instance of the class at all,
  and the test's call \<open>result.isNone()\<close> raises a \<open>TypeError\<close>.
\<close>

theorem collect_absent_returns_method:
  "collect [Option_some (Val (1::int)), Option_none, Option_some (Val 3)]
     = Inr Option_none_method
   \<and> (\<forall>x. collect [Option_some (Val (1::int)), Option_none, Option_some (Val 3)]
          \<noteq> Inr (Instance x))
   \<and> call_isNone (Option_none_method :: int helper_value) = Inl TypeError"
  by (simp add: collect_def Option_defs call_isNone_def)

text \<open>
  Claim C2. \<open>wrapSync\<close> on a function that throws \<open>new Error('test')\<close>, as in the helpers'
  test; the state counts the calls. The function is called once and the error is
  discarded, as claimed, but what comes back is the method \<open>Option.none\<close> and not an empty
  \<open>Option\<close>.
\<close>

theorem wrapSync_throw_returns_method:
  "wrapSync (\<lambda>calls :: nat. (Inl (Error ''test''), Suc calls)) 0
     = (Option_none_method :: int helper_value, 1)
   \<and> (\<forall>x. fst (wrapSync (\<lambda>calls :: nat. (Inl (Error ''test'' :: int jsval), Suc calls)) 0)
          \<noteq> Instance x)
   \<and> call_isNone (Option_none_method :: int helper_value) = Inl TypeError"
  by (simp add: wrapSync_def call_isNone_def)

text \<open>
  Claim C3. \<open>findSome\<close> on \<open>[None(), None()]\<close>, as in the helpers' test, and on the
  empty list: the code returns the method \<open>Option.none\<close> and not an empty \<open>Option\<close>.
\<close>

theorem findSome_absent_returns_method:
  "findSome [Option_none :: int Option, Option_none] = Option_none_method
   \<and> findSome ([] :: int Option list) = Option_none_method
   \<and> (\<forall>x. findSome [Option_none :: int Option, Option_none] \<noteq> Instance x)
   \<and> call_isNone (Option_none_method :: int helper_value) = Inl TypeError"
  by (simp add: Option_defs call_isNone_def)

subsection \<open>Collecting a list of \<open>Result\<close>s\<close>

lemma Result_collect_loop_all_ok:
  "\<forall>r\<in>set rs. Result_isOk r \<Longrightarrow>
   Result_collect_loop rs vals = Inr (Result_ok (Arr (vals @ map R_value rs)))"
  by (induction rs arbitrary: vals)
    (simp_all add: Result_isOk_def Result_isErr_def Result_value_def)

lemma Result_collect_loop_first_err:
  "\<forall>r\<in>set pre. Result_isOk r \<Longrightarrow> Result_isErr r \<Longrightarrow>
   Result_collect_loop (pre @ r # post) vals = Inr r"
  by (induction pre arbitrary: vals)
    (simp_all add: Result_isOk_def Result_isErr_def Result_value_def)

text \<open>
  Claim C4. \<open>collect\<close> over a list of \<open>Result\<close>s never throws. On the empty list it returns
  \<open>Ok([])\<close>. When every element is \<open>Ok\<close> it returns \<open>Ok\<close> of the payloads in input order. When
  \<open>r\<close> is the first \<open>Err\<close> (everything before it is \<open>Ok\<close>) it returns \<open>r\<close> itself, the very
  element with its error untouched, whatever follows \<open>r\<close> in the list.
\<close>

theorem Result_collect_spec:
  "Result_collect ([] :: 'a Result list) = Inr (Result_ok (Arr []))
   \<and> ((\<forall>r\<in>set (rs :: 'a Result list). Result_isOk r) \<longrightarrow>
        Result_collect rs = Inr (Result_ok (Arr (map R_value rs))))
   \<and> ((\<forall>r\<in>set (pre :: 'a Result list). Result_isOk r) \<and> Result_isErr r \<longrightarrow>
        Result_collect (pre @ r # post) = Inr r)"
  by (simp add: Result_collect_def Result_collect_loop_all_ok Result_collect_loop_first_err)

theorem Result_collect_spec_witness:
  "Result_collect [Result_ok (Val (1::int)), Result_ok (Val 2), Result_ok (Val 3)]
     = Inr (Result_ok (Arr [Val 1, Val 2, Val 3]))
   \<and> Result_collect [Result_ok (Val ''1''), Result_err (Val ''e''), Result_ok (Val ''3'')]
     = Inr (Result_err (Val ''e''))
   \<and> Result_collect [Result_ok (Val ''1''), Result_err (Val ''e''), Result_err (Val ''f'')]
     = Inr (Result_err (Val ''e''))"
proof -
  have ok: "\<forall>r\<in>set [Result_ok (Val (1::int)), Result_ok (Val 2), Result_ok (Val 3)]. Result_isOk r"
    by (simp add: Result_ok_def Result_isOk_def)
  have pre: "\<forall>r\<in>set [Result_ok (Val ''1'')]. Result_isOk r"
    by (simp add: Result_ok_def Result_isOk_def)
  have err: "Result_isErr (Result_err (Val ''e''))"
    by (simp add: Result_err_def Result_isErr_def)
  have payloads: "map R_value [Result_ok (Val (1::int)), Result_ok (Val 2), Result_ok (Val 3)]
      = [Val 1, Val 2, Val 3]"
    by (simp add: Result_ok_def)
  have all_ok: "Result_collect [Result_ok (Val (1::int)), Result_ok (Val 2), Result_ok (Val 3)]
      = Inr (Result_ok (Arr [Val 1, Val 2, Val 3]))"
    using ok payloads
      Result_collect_spec [where rs = "[Result_ok (Val (1::int)), Result_ok (Val 2), Result_ok (Val 3)]"
        and pre = "[]" and r = "Result_err (Val 0)" and post = "[]"]
    by simp
  have first_err: "Result_collect [Result_ok (Val ''1''), Result_err (Val ''e''), Result_ok (Val ''3'')]
      = Inr (Result_err (Val ''e''))"
    using pre err
      Result_collect_spec [where pre = "[Result_ok (Val ''1'')]" and r = "Result_err (Val ''e'')"
        and post = "[Result_ok (Val ''3'')]" and rs = "[]"]
    by simp
  have later_err: "Result_collect [Result_ok (Val ''1''), Result_err (Val ''e''), Result_err (Val ''f'')]
      = Inr (Result_err (Val ''e''))"
    using pre err
      Result_collect_spec [where pre = "[Result_ok (Val ''1'')]" and r = "Result_err (Val ''e'')"
        and post = "[Result_err (Val ''f'')]" and rs = "[]"]
    by simp
  show ?thesis
    using all_ok first_err later_err by simp
qed

subsection \<open>Unwrapping\<close>

text \<open>
  Claim C5, as amended. \<open>unwrap\<close> on \<open>None()\<close> throws an \<open>Error\<close> whose message is
  \<open>Called unwrap on a None value\<close>. \<open>unwrap\<close> on \<open>Err(e)\<close> first converts \<open>e\<close> to a string:
  when the conversion gives the string \<open>s\<close>, it throws an \<open>Error\<close> whose message is
  \<open>Called unwrap on an Err value: \<close> followed by \<open>s\<close>; when the conversion throws \<open>t\<close>, it
  throws \<open>t\<close>. On \<open>Some(v)\<close> and on \<open>Ok(v)\<close> it returns \<open>v\<close>, throws nothing and converts
  nothing.
\<close>

theorem unwrap_spec:
  "Option_unwrap (Option_none :: 'a Option) = Inl (Error ''Called unwrap on a None value'')
   \<and> (str e = Inr s \<longrightarrow>
        Result_unwrap str (Result_err e)
          = Inl (Error (''Called unwrap on an Err value: '' @ s)))
   \<and> (str e = Inl t \<longrightarrow> Result_unwrap str (Result_err e) = Inl t)
   \<and> Option_unwrap (Option_some (v :: 'a jsval)) = Inr v
   \<and> Result_unwrap str (Result_ok v) = Inr v"
  by (simp add: Option_defs Result_defs)

theorem unwrap_spec_witness:
  "Result_unwrap ToString (Result_err (Val (Str ''error'')))
     = Inl (Error ''Called unwrap on an Err value: error'')
   \<and> Result_unwrap ToString (Result_err (Val (Symbol ''s''))) = Inl TypeError
   \<and> Result_unwrap ToString (Result_ok (Val (Symbol ''s''))) = Inr (Val (Symbol ''s''))
   \<and> Option_unwrap (Option_some (Val (Str ''42''))) = Inr (Val (Str ''42''))
   \<and> Option_unwrap (Option_none :: atom Option)
       = Inl (Error ''Called unwrap on a None value'')"
proof -
  have string: "ToString (Val (Str ''error'')) = Inr ''error''"
    by simp
  have symbol: "ToString (Val (Symbol ''s'')) = Inl TypeError"
    by simp
  show ?thesis
    using string symbol
      unwrap_spec [where str = ToString and e = "Val (Str ''error'')" and s = "''error''"
        and t = TypeError and v = "Val (Symbol ''s'')"]
      unwrap_spec [where str = ToString and e = "Val (Symbol ''s'')" and s = "''error''"
        and t = TypeError and v = "Val (Str ''42'')"]
    by simp
qed

text \<open>
  Claim C5 as the specification states it, a prefixed \<open>Error\<close> for every \<open>e\<close>, fails on
  \<open>Err(Symbol('s')).unwrap()\<close>: the template literal throws a \<open>TypeError\<close> before any \<open>Error\<close>
  is built. What \<open>unwrap\<close> throws is that \<open>TypeError\<close>, and not the \<open>Error\<close> whose message
  ends in the symbol's description \<open>Symbol(s)\<close>.
\<close>

theorem unwrap_Err_counterexample:
  "Result_unwrap ToString (Result_err (Val (Symbol ''s''))) = Inl TypeError
   \<and> Result_unwrap ToString (Result_err (Val (Symbol ''s'')))
       \<noteq> Inl (Error (''Called unwrap on an Err value: '' @ ''Symbol(s)''))"
  by (simp add: Result_unwrap_def Result_err_def)

subsection \<open>From a nullable value\<close>

text \<open>
  Claim C6. \<open>fromNullable\<close> sends \<open>null\<close> and \<open>undefined\<close> to \<open>None()\<close>, and every other
  value \<open>v\<close> to \<open>Some(v)\<close>; \<open>0\<close>, \<open>false\<close> and the empty string are such values.
\<close>

theorem fromNullable_spec:
  "Option_fromNullable Null = (Option_none :: 'a Option)
   \<and> Option_fromNullable Undefined = (Option_none :: 'a Option)
   \<and> (\<forall>v :: 'a jsval. v \<noteq> Null \<and> v \<noteq> Undefined \<longrightarrow>
        Option_fromNullable v = Option_some v)"
  by (simp add: Option_fromNullable_def loose_neq_null_iff)

theorem fromNullable_spec_witness:
  "Option_fromNullable (Val (0::int)) = Option_some (Val 0)
   \<and> Option_fromNullable (Val False) = Option_some (Val False)
   \<and> Option_fromNullable (Val (''''::string)) = Option_some (Val '''')
   \<and> Option_isSome (Option_fromNullable (Val (0::int)))
   \<and> Option_isNone (Option_fromNullable (Null :: int jsval))
   \<and> Option_isNone (Option_fromNullable (Undefined :: int jsval))"
proof -
  have zero: "Option_fromNullable (Val (0::int)) = Option_some (Val 0)"
    using fromNullable_spec [where ?'a = int] by simp
  have false: "Option_fromNullable (Val False) = Option_some (Val False)"
    using fromNullable_spec [where ?'a = bool] by simp
  have empty: "Option_fromNullable (Val (''''::string)) = Option_some (Val '''')"
    using fromNullable_spec [where ?'a = string] by simp
  have nulls: "Option_fromNullable (Null :: int jsval) = Option_none"
    "Option_fromNullable (Undefined :: int jsval) = Option_none"
    using fromNullable_spec [where ?'a = int] by simp_all
  show ?thesis
    by (simp add: zero false empty nulls Option_isSome_def Option_isNone_def
        Option_some_def Option_none_def)
qed

subsection \<open>Laws of the combinators\<close>

text \<open>
  Claim C7. Mapping the identity changes nothing a client can see, on either class and
  either variant: the guards and the getters of \<open>x.map(v => v)\<close> answer as those of \<open>x\<close>.
  On the instances the factories build the two are equal outright, and an \<open>Err\<close> keeps its
  error.
\<close>

theorem map_identity:
  "Option_obs_eq (Option_map x (\<lambda>v. v)) x
   \<and> Option_map (Option_some v) (\<lambda>v. v) = Option_some v
   \<and> Option_map Option_none (\<lambda>v. v) = (Option_none :: 'a Option)
   \<and> Result_obs_eq (Result_map r (\<lambda>v. v)) r
   \<and> Result_map (Result_ok v) (\<lambda>v. v) = Result_ok v
   \<and> Result_map (Result_err e) (\<lambda>v. v) = Result_err e
   \<and> Result_error (Result_map (Result_err e) (\<lambda>v. v)) = Inr e"
  by (simp add: Option_defs Result_defs)

text \<open>
  Claim C8. \<open>None().and(other)\<close> is \<open>None()\<close> and \<open>Err(e).and(other)\<close> is \<open>Err(e)\<close>, whatever
  \<open>other\<close> is; \<open>Some(v).or(other)\<close> is \<open>Some(v)\<close> and \<open>Ok(v).or(other)\<close> is \<open>Ok(v)\<close>, whatever
  \<open>other\<close> is.
\<close>

theorem short_circuit:
  "Option_and Option_none other = Option_none
   \<and> Result_and (Result_err e) other' = Result_err e
   \<and> Option_or (Option_some v) other = Option_some v
   \<and> Result_or (Result_ok v) other' = Result_ok v"
  by (simp add: Option_defs Result_defs)

text \<open>
  Claim C9. \<open>andThen\<close> is associative on both classes:
  \<open>x.andThen(f).andThen(g)\<close> equals \<open>x.andThen(v => f(v).andThen(g))\<close>, for callbacks that
  return containers.
\<close>

theorem andThen_assoc:
  "Option_andThen (Option_andThen x f) g = Option_andThen x (\<lambda>v. Option_andThen (f v) g)
   \<and> Result_andThen (Result_andThen r f') g'
       = Result_andThen r (\<lambda>v. Result_andThen (f' v) g')"
  by (simp add: Option_defs Result_defs)

subsection \<open>The discriminant and the round trip through a nullable\<close>

text \<open>
  Claim C10. The variant is the discriminant, not the payload: \<open>Some(v)\<close> answers
  \<open>isSome()\<close> with true and unwraps to \<open>v\<close> for every \<open>v\<close>, \<open>null\<close> and \<open>undefined\<close>
  included, and \<open>Some(undefined)\<close> holds the payload of \<open>None()\<close> yet is not equal to it.
  So \<open>fromNullable(x.toNullable())\<close> and \<open>fromNullable(x.toUndefined())\<close> are observationally
  equal to \<open>x\<close> for every \<open>x\<close> other than \<open>Some(null)\<close> and \<open>Some(undefined)\<close> (and equal
  outright on what the factories build), while those two come back as \<open>None()\<close>.
\<close>

theorem discriminant_roundtrip:
  "Option_isSome (Option_some v) \<and> Option_unwrap (Option_some v) = Inr v
   \<and> Option_isSome (Option_some (Null :: 'a jsval))
   \<and> Option_unwrap (Option_some (Null :: 'a jsval)) = Inr Null
   \<and> Option_isSome (Option_some (Undefined :: 'a jsval))
   \<and> Option_unwrap (Option_some (Undefined :: 'a jsval)) = Inr Undefined
   \<and> O_value (Option_some (Undefined :: 'a jsval)) = O_value (Option_none :: 'a Option)
   \<and> \<not> Option_obs_eq (Option_some (Undefined :: 'a jsval)) Option_none
   \<and> (\<not> (O_isSome x \<and> (O_value x = Null \<or> O_value x = Undefined)) \<longrightarrow>
        Option_obs_eq (Option_fromNullable (Option_toNullable x)) x
        \<and> Option_obs_eq (Option_fromNullable (Option_toUndefined x)) x)
   \<and> (v \<noteq> Null \<and> v \<noteq> Undefined \<longrightarrow>
        Option_fromNullable (Option_toNullable (Option_some v)) = Option_some v
        \<and> Option_fromNullable (Option_toUndefined (Option_some v)) = Option_some v)
   \<and> Option_fromNullable (Option_toNullable (Option_none :: 'a Option)) = Option_none
   \<and> Option_fromNullable (Option_toUndefined (Option_none :: 'a Option)) = Option_none
   \<and> Option_fromNullable (Option_toNullable (Option_some (Null :: 'a jsval))) = Option_none
   \<and> Option_fromNullable (Option_toUndefined (Option_some (Null :: 'a jsval))) = Option_none
   \<and> Option_fromNullable (Option_toNullable (Option_some (Undefined :: 'a jsval))) = Option_none
   \<and> Option_fromNullable (Option_toUndefined (Option_some (Undefined :: 'a jsval))) = Option_none
   \<and> \<not> Option_obs_eq (Option_none :: 'a Option) (Option_some Null)
   \<and> \<not> Option_obs_eq (Option_none :: 'a Option) (Option_some Undefined)"
  by (simp add: Option_defs loose_neq_null_iff)

theorem discriminant_roundtrip_witness:
  "Option_obs_eq (Option_fromNullable (Option_toNullable (Option_some (Val (42::int)))))
       (Option_some (Val 42))
   \<and> Option_obs_eq (Option_fromNullable (Option_toUndefined (Option_some (Val (42::int)))))
       (Option_some (Val 42))
   \<and> Option_obs_eq (Option_fromNullable (Option_toNullable (Option_none :: int Option)))
       Option_none
   \<and> Option_fromNullable (Option_toNullable (Option_some (Val (0::int)))) = Option_some (Val 0)"
proof -
  have some: "\<not> (O_isSome (Option_some (Val (42::int)))
      \<and> (O_value (Option_some (Val (42::int))) = Null
          \<or> O_value (Option_some (Val (42::int))) = Undefined))"
    by (simp add: Option_some_def)
  have none: "\<not> (O_isSome (Option_none :: int Option)
      \<and> (O_value (Option_none :: int Option) = Null
          \<or> O_value (Option_none :: int Option) = Undefined))"
    by (simp add: Option_none_def)
  have zero: "Val (0::int) \<noteq> Null \<and> Val (0::int) \<noteq> Undefined"
    by simp
  show ?thesis
    using some none zero
      discriminant_roundtrip [where x = "Option_some (Val (42::int))" and v = "Val (0::int)"]
      discriminant_roundtrip [where x = "Option_none :: int Option" and v = "Val (0::int)"]
    by blast
qed

end
